theory Spec2Isabelle
  imports Main "HOL-Library.Word" "HOL-Library.Multiset"
begin

section \<open>JavaScript strings, localized messages, URIs and errors\<close>

text \<open>
  A JavaScript string is a sequence of UTF-16 code units; \<open>.length\<close> counts code units.
  \<open>js\<close> embeds an ASCII literal of the source.
\<close>

type_synonym jsstring = "16 word list"

definition js :: "string \<Rightarrow> jsstring" where
  "js s = map of_char s"

text \<open>\<open>Array.prototype.join\<close> on an array of strings.\<close>

fun js_join :: "jsstring \<Rightarrow> jsstring list \<Rightarrow> jsstring" where
  "js_join sep [] = []"
| "js_join sep [x] = x"
| "js_join sep (x # y # ys) = x @ sep @ js_join sep (y # ys)"

text \<open>
  \<open>String.prototype.trim\<close>: strips WhiteSpace and LineTerminator code units from both ends.
\<close>

definition isWhiteSpace :: "16 word \<Rightarrow> bool" where
  "isWhiteSpace c =
     (c \<in> {0x09, 0x0A, 0x0B, 0x0C, 0x0D, 0x20, 0xA0, 0x1680, 0x2028, 0x2029,
           0x202F, 0x205F, 0x3000, 0xFEFF}
      \<or> (0x2000 \<le> c \<and> c \<le> 0x200A))"

definition trim :: "jsstring \<Rightarrow> jsstring" where
  "trim s = rev (dropWhile isWhiteSpace (rev (dropWhile isWhiteSpace s)))"

text \<open>
  \<open>nls.localize(key, defaultMessage, ...args)\<close> yields a string that depends on the
  installed language pack, so a localized message is kept as the call itself: key, default
  message and arguments. \<open>Append\<close> is string concatenation (\<open>+=\<close>) of two such texts.
\<close>

datatype nls_arg = S jsstring | N nat

datatype nls_text = Plain jsstring | Localize string string "nls_arg list" | Append nls_text nls_text

record URI =
  scheme :: jsstring
  fsPath :: jsstring

text \<open>
  A thrown or rejected \<open>Error\<close>: its message, and what \<open>errors.isPromiseCanceledError\<close>
  answers for it.
\<close>

record JSError =
  message :: nls_text
  isPromiseCanceledError :: bool

section \<open>File commands: copy path, revert\<close>

text \<open>
  The commands reach every service through the accessor. The services are collaborators
  outside this code; the record below holds what they answer during one command
  invocation. A call that changes the outside world is recorded as an effect, in call order.
\<close>

record EditorInput =
  getName :: jsstring
  isUntitled :: bool

record IEditorIdentifier =
  groupId :: nat
  editor :: EditorInput

datatype command_arg = ArgURI URI | ArgObject

record services =
  isWindows :: bool
  getUriLabel :: "URI \<Rightarrow> bool \<Rightarrow> bool \<Rightarrow> jsstring"
    \<comment> \<open>\<open>labelService.getUriLabel(resource, { relative, noPrefix })\<close>\<close>
  clipboard_writeText :: "jsstring \<Rightarrow> JSError option"
    \<comment> \<open>\<open>Some e\<close>: the promise of \<open>clipboardService.writeText\<close> rejects with \<open>e\<close>\<close>
  getMultiSelectedResources :: "command_arg \<Rightarrow> URI list"
  activeEditor_getResource :: "URI option"
    \<comment> \<open>\<open>None\<close>: no active editor, or its \<open>getResource()\<close> is null\<close>
  getMultiSelectedEditors :: "IEditorIdentifier list"
  editorService_revert :: "IEditorIdentifier list \<Rightarrow> bool \<Rightarrow> JSError option"
    \<comment> \<open>\<open>editorService.revert(editors, { force })\<close>; \<open>Some e\<close>: it rejects with \<open>e\<close>\<close>
  toErrorMessage :: "JSError \<Rightarrow> bool \<Rightarrow> jsstring"

datatype file_effect =
    ClipboardWriteText jsstring
  | NotificationInfo nls_text
  | NotificationError nls_text
  | EditorServiceRevert "IEditorIdentifier list" bool

text \<open>
  An async command handler returns the effects it caused and how its promise settles:
  \<open>Inr ()\<close> resolved, \<open>Inl e\<close> rejected with \<open>e\<close>.
\<close>

type_synonym command_result = "file_effect list \<times> (JSError + unit)"

definition resourcesToClipboard :: "services \<Rightarrow> URI list \<Rightarrow> bool \<Rightarrow> command_result" where
  "resourcesToClipboard sv resources relative =
     (if length resources \<noteq> 0 then
        let lineDelimiter = (if isWindows sv then [0x0D, 0x0A] else [0x0A]);
            text = js_join lineDelimiter
                     (map (\<lambda>resource. getUriLabel sv resource relative True) resources)
        in ([ClipboardWriteText text],
            case clipboard_writeText sv text of None \<Rightarrow> Inr () | Some e \<Rightarrow> Inl e)
      else
        ([NotificationInfo (Localize ''openFileToCopy'' ''Open a file first to copy its path'' [])],
         Inr ()))"

definition COPY_PATH_COMMAND :: "services \<Rightarrow> command_arg \<Rightarrow> command_result" where
  "COPY_PATH_COMMAND sv resource =
     (let resources = getMultiSelectedResources sv resource
      in resourcesToClipboard sv resources False)"

definition COPY_RELATIVE_PATH_COMMAND :: "services \<Rightarrow> command_arg \<Rightarrow> command_result" where
  "COPY_RELATIVE_PATH_COMMAND sv resource =
     (let resources = getMultiSelectedResources sv resource
      in resourcesToClipboard sv resources True)"

definition copyPathOfActiveFile :: "services \<Rightarrow> command_result" where
  "copyPathOfActiveFile sv =
     (let resources = (case activeEditor_getResource sv of Some resource \<Rightarrow> [resource] | None \<Rightarrow> [])
      in resourcesToClipboard sv resources False)"

definition REVERT_FILE_COMMAND :: "services \<Rightarrow> command_result" where
  "REVERT_FILE_COMMAND sv =
     (let editors = filter (\<lambda>e. \<not> isUntitled (editor e)) (getMultiSelectedEditors sv)
      in case editorService_revert sv editors True of
           None \<Rightarrow> ([EditorServiceRevert editors True], Inr ())
         | Some error \<Rightarrow>
             ([EditorServiceRevert editors True,
               NotificationError
                 (Localize ''genericRevertError'' ''Failed to revert '{0}': {1}''
                    [S (js_join (js '', '') (map (\<lambda>e. getName (editor e)) editors)),
                     S (toErrorMessage sv error False)])],
              Inr ()))"

section \<open>Search queries\<close>

text \<open>
  \<open>ITextQuery\<close> and \<open>IFolderQuery\<close> are declared by the search service. The view reads and
  writes \<open>folderQueries\<close> and reads \<open>userDisabledExcludesAndIgnoreFiles\<close>; everything else a
  query carries is the opaque component \<open>other\<close>.
\<close>

record IFolderQuery =
  folder :: URI

record 'q ITextQuery =
  folderQueries :: "IFolderQuery list"
  userDisabledExcludesAndIgnoreFiles :: "bool option"
  other :: 'q

text \<open>
  \<open>validateQuery\<close>: \<open>fileService.exists\<close> is asked for every folder query, the answers are
  collected by \<open>Promise.all\<close>, and the folder queries are filtered by the answer at their
  index. \<open>Inr\<close> is the resolved promise, carrying the query object as mutated; \<open>Inl\<close> the
  rejection.
\<close>

definition searchPathNotFoundError :: "jsstring \<Rightarrow> JSError" where
  "searchPathNotFoundError nonExistantPath =
     \<lparr>message = Localize ''searchPathNotFoundError'' ''Search path not found: {0}''
                  [S nonExistantPath],
      isPromiseCanceledError = False\<rparr>"

definition typeError :: JSError where
  "typeError = \<lparr>message = Plain (js ''TypeError''), isPromiseCanceledError = False\<rparr>"

definition validateQuery :: "(URI \<Rightarrow> bool) \<Rightarrow> 'q ITextQuery \<Rightarrow> JSError + 'q ITextQuery" where
  "validateQuery folderExists query =
     (let existResults = map (\<lambda>fq. folderExists (folder fq)) (folderQueries query);
          existingFolderQueries = map fst (filter snd (zip (folderQueries query) existResults))
      in if length (folderQueries query) = 0 \<or> length existingFolderQueries \<noteq> 0 then
           Inr (query\<lparr>folderQueries := existingFolderQueries\<rparr>)
         else
           (case folderQueries query of
              fq # _ \<Rightarrow> Inl (searchPathNotFoundError (fsPath (folder fq)))
            | [] \<Rightarrow> Inl typeError))"

section \<open>The search result model, as the view observes it\<close>

text \<open>
  \<open>Match\<close>, \<open>FileMatch\<close>, \<open>FolderMatch\<close> and \<open>SearchResult\<close> are classes of the search model,
  a collaborator outside this code. Each record holds what the methods and getters the view
  calls answer: \<open>file_count\<close> is \<open>FileMatch.count()\<close>, \<open>folder_isEmpty\<close> is
  \<open>FolderMatch.isEmpty()\<close>, and so on. Line and column numbers are JavaScript numbers
  holding integers.
\<close>

record IRange =
  startLineNumber :: int
  startColumn :: int
  endLineNumber :: int
  endColumn :: int

record Match =
  match_id :: jsstring
  match_range :: IRange
  match_replaceString :: jsstring
  match_parent_resource :: URI
    \<comment> \<open>\<open>match.parent().resource\<close>\<close>

record FileMatch =
  file_id :: jsstring
  file_resource :: URI
  file_matches :: "Match list"
  file_count :: nat

record FolderMatch =
  folder_id :: jsstring
  folder_matches :: "FileMatch list"
  folder_isEmpty :: bool

record SearchResult =
  sr_folderMatches :: "FolderMatch list"
  sr_matches :: "FileMatch list"
  sr_isEmpty :: bool
  sr_fileCount :: nat
  sr_count :: nat
  sr_query_userDisabledExcludesAndIgnoreFiles :: "bool option"
    \<comment> \<open>\<open>searchResult.query!.userDisabledExcludesAndIgnoreFiles\<close>: the source asserts
        with \<open>!\<close> that the query is set\<close>

datatype RenderableMatch = RFolder FolderMatch | RFile FileMatch | RMatch Match

datatype FileMatchOrMatch = AFileMatch FileMatch | AMatch Match

datatype change_element = CSearchResult | CFolderMatch FolderMatch | CFileMatch FileMatch

record IChangeEvent =
  elements :: "change_element list"
  added :: bool
  removed :: bool

text \<open>
  \<open>ITreeElement\<close>: an element, its children and the optional \<open>collapsed\<close> flag. A node
  written without the \<open>children\<close> key has no children.
\<close>

datatype 'a ITreeElement =
  ITreeElement (node_element: 'a) (node_children: "'a ITreeElement list")
    (node_collapsed: "bool option")

datatype collapseResults = auto | alwaysCollapse | alwaysExpand

text \<open>
  \<open>Array.prototype.sort(compareFn)\<close> is a stable sort: \<open>a\<close> comes before \<open>b\<close> when
  \<open>compareFn(a, b) < 0\<close>, and elements that compare equal keep their order. For a
  consistent comparator that fixes the result; it is computed here by insertion.
\<close>

fun js_insert :: "('a \<Rightarrow> 'a \<Rightarrow> int) \<Rightarrow> 'a \<Rightarrow> 'a list \<Rightarrow> 'a list" where
  "js_insert compareFn x [] = [x]"
| "js_insert compareFn x (y # ys) =
     (if compareFn x y \<le> 0 then x # y # ys else y # js_insert compareFn x ys)"

definition js_sort :: "('a \<Rightarrow> 'a \<Rightarrow> int) \<Rightarrow> 'a list \<Rightarrow> 'a list" where
  "js_sort compareFn xs = foldr (js_insert compareFn) xs []"

text \<open>
  The three iterators. \<open>searchMatchComparer\<close> is imported from the search model and
  \<open>tree.getNode\<close> belongs to the tree widget; both are parameters. \<open>nodeExists\<close> tells
  whether \<open>tree.getNode(fileMatch)\<close> returns rather than throws.
\<close>

definition createFileIterator ::
  "(RenderableMatch \<Rightarrow> RenderableMatch \<Rightarrow> int) \<Rightarrow> FileMatch \<Rightarrow> RenderableMatch ITreeElement list" where
  "createFileIterator searchMatchComparer fileMatch =
     map (\<lambda>r. ITreeElement (RMatch r) [] None)
       (js_sort (\<lambda>a b. searchMatchComparer (RMatch a) (RMatch b)) (file_matches fileMatch))"

definition createFolderIterator ::
  "(RenderableMatch \<Rightarrow> RenderableMatch \<Rightarrow> int) \<Rightarrow> (FileMatch \<Rightarrow> bool) \<Rightarrow> FolderMatch \<Rightarrow>
     collapseResults \<Rightarrow> RenderableMatch ITreeElement list" where
  "createFolderIterator searchMatchComparer nodeExists folderMatch collapse =
     map (\<lambda>fileMatch.
            let children = createFileIterator searchMatchComparer fileMatch;
                collapsed =
                  (if nodeExists fileMatch then None
                   else Some (collapse = alwaysCollapse
                              \<or> (length (file_matches fileMatch) > 10 \<and> collapse \<noteq> alwaysExpand)))
            in ITreeElement (RFile fileMatch) children collapsed)
       (js_sort (\<lambda>a b. searchMatchComparer (RFile a) (RFile b)) (folder_matches folderMatch))"

definition createResultIterator ::
  "(RenderableMatch \<Rightarrow> RenderableMatch \<Rightarrow> int) \<Rightarrow> (FileMatch \<Rightarrow> bool) \<Rightarrow> SearchResult \<Rightarrow>
     collapseResults \<Rightarrow> RenderableMatch ITreeElement list" where
  "createResultIterator searchMatchComparer nodeExists searchResult collapse =
     (let folderMatches =
            js_sort (\<lambda>a b. searchMatchComparer (RFolder a) (RFolder b))
              (filter (\<lambda>fm. \<not> folder_isEmpty fm) (sr_folderMatches searchResult))
      in if length folderMatches = 1 then
           createFolderIterator searchMatchComparer nodeExists (folderMatches ! 0) collapse
         else
           map (\<lambda>folderMatch.
                  let children =
                        createFolderIterator searchMatchComparer nodeExists folderMatch collapse
                  in ITreeElement (RFolder folderMatch) children None)
             folderMatches)"

definition createIterator ::
  "(RenderableMatch \<Rightarrow> RenderableMatch \<Rightarrow> int) \<Rightarrow> (FileMatch \<Rightarrow> bool) \<Rightarrow> SearchResult \<Rightarrow>
     change_element \<Rightarrow> collapseResults \<Rightarrow> RenderableMatch ITreeElement list" where
  "createIterator searchMatchComparer nodeExists searchResult match collapse =
     (case match of
        CSearchResult \<Rightarrow> createResultIterator searchMatchComparer nodeExists searchResult collapse
      | CFolderMatch fm \<Rightarrow> createFolderIterator searchMatchComparer nodeExists fm collapse
      | CFileMatch f \<Rightarrow> createFileIterator searchMatchComparer f)"

section \<open>The search view: collaborators, effects and state\<close>

datatype SearchUIState = Idle | Searching | SlowSearch

datatype MessageType = INFO | WARNING | ERROR

datatype WorkbenchState = EMPTY | FOLDER | WORKSPACE


datatype editor_group = ACTIVE_GROUP | SIDE_GROUP

datatype link = SearchAgain | SearchAgainInAllFiles | OpenSettings | LearnMore | OpenFolder

record IPatternInfo =
  pattern :: jsstring
  isRegExp :: bool
  isCaseSensitive :: bool
  isWordMatch :: bool

record ITextSearchPreviewOptions =
  matchLines :: nat
  charsPerLine :: nat

text \<open>An optional property that is \<open>true\<close> or \<open>undefined\<close> is a \<open>bool option\<close>.\<close>

record ITextQueryBuilderOptions =
  reason :: jsstring
    \<comment> \<open>the property \<open>_reason\<close>\<close>
  extraFileResources :: "URI list"
  maxResults :: nat
  disregardIgnoreFiles :: "bool option"
  disregardExcludeSettings :: "bool option"
  excludePattern :: jsstring
  includePattern :: jsstring
  previewOptions :: ITextSearchPreviewOptions
  isSmartCase :: bool
  expandPatterns :: bool

record ISearchComplete =
  limitHit :: bool

record IWorkspaceFolder =
  uri :: URI

record editor_options =
  opt_preserveFocus :: "bool option"
  opt_pinned :: "bool option"
  opt_selection :: "IRange option"
  opt_revealIfVisible :: bool

text \<open>What the search widget and the two pattern inputs answer.\<close>

record inputs =
  isInputValid :: bool
  getRegex :: bool
  getWholeWords :: bool
  getCaseSensitive :: bool
  searchInput_getValue :: jsstring
  getReplaceValue :: jsstring
  inputPatternExcludes_getValue :: jsstring
  inputPatternIncludes_getValue :: jsstring
  useExcludesAndIgnoreFiles :: bool

text \<open>
  What the collaborators answer while one handler of the view runs: the widgets, the search
  model, the injected services, the tree and the DOM. \<open>queryBuilder_text\<close> is
  \<open>QueryBuilder.text\<close>, \<open>Inl\<close> when it throws. \<open>editorService_openEditor\<close> is how the promise
  of \<open>openEditor\<close> settles: \<open>Inr True\<close> with an editor, \<open>Inr False\<close> without, \<open>Inl\<close> rejected.
\<close>

record 'q env =
  inputs :: inputs
  searchResult :: SearchResult
  searchMatchComparer :: "RenderableMatch \<Rightarrow> RenderableMatch \<Rightarrow> int"
  tree_nodeExists :: "FileMatch \<Rightarrow> bool"
  isVisible :: bool
  viewModel_cancelSearch :: bool
  viewModel_isReplaceActive :: bool
  viewModel_replaceString :: jsstring
  queryBuilder_text ::
    "IPatternInfo \<Rightarrow> URI list \<Rightarrow> ITextQueryBuilderOptions \<Rightarrow> JSError + 'q ITextQuery"
  fileService_exists :: "URI \<Rightarrow> bool"
  editorService_openEditor :: "JSError + bool"
  getOutOfWorkspaceEditorResources :: "URI list"
  workspace_folders :: "IWorkspaceFolder list"
  getWorkbenchState :: WorkbenchState
  search_smartCase :: bool
  search_searchOnType :: bool
  search_collapseResults :: collapseResults
  showingCancelled :: bool
    \<comment> \<open>the first child of the messages element contains the cancelled message\<close>
  msgWasHidden :: bool
    \<comment> \<open>\<open>messagesElement.style.display === 'none'\<close>\<close>

text \<open>Calls on collaborators, recorded in call order.\<close>

datatype 'q effect =
    ViewletVisibleSet bool
  | HasSearchResultsKeySet bool
  | SearchResultToggleHighlights bool
  | SearchResultClear
  | ViewModelCancelSearch
  | ViewModelSetReplaceString jsstring
  | ViewModelSearch "'q ITextQuery"
  | QueryBuilderText IPatternInfo "URI list" ITextQueryBuilderOptions
  | SetReplaceAllActionState bool
  | SearchWidgetClear
  | SearchWidgetFocus "bool option"
  | SearchInputShowMessage nls_text MessageType
  | SearchInputClearMessage
  | SearchInputOnSearchSubmitDelayed
  | InputPatternExcludesOnSearchSubmit
  | InputPatternIncludesOnSearchSubmit
  | TreeSetChildren "change_element option" "RenderableMatch ITreeElement list"
  | TreeRerender change_element
  | TreeExpand FileMatch
  | UpdateActions
  | WithProgress nat
  | ProgressComplete
  | AriaStatus nls_text
  | DomClearMessage
  | DomAppendMessage nls_text
  | DomAppendLink nls_text link
  | DomHideMessages
  | DomShowResults
  | ReLayout
  | OpenEditor URI editor_options editor_group
  | HighlightRange IRange
  | RemoveHighlightRange
  | OnUnexpectedError JSError

record 'q doSearch_args =
  arg_query :: "'q ITextQuery"
  arg_options :: ITextQueryBuilderOptions
  arg_excludePatternText :: jsstring
  arg_includePatternText :: jsstring
  arg_triggeredOnType :: bool

text \<open>
  The fields of \<open>SearchView\<close> that its handlers read and write, and the pieces of the
  JavaScript run time they create:
  \<^item> \<open>currentSearchQ\<close> is a promise chain: \<open>currentSearchQ_pending\<close> holds the \<open>doSearch\<close>
    calls chained and not yet started, \<open>currentSearchQ_running\<close> the call whose promise is
    not yet settled. A chained call starts only when the one before it has settled.
  \<^item> \<open>slowTimer\<close> is the pending \<open>setTimeout\<close> of the running \<open>doSearch\<close>, with the clock
    value from which it may fire; \<open>clock\<close> counts milliseconds.
  \<^item> \<open>uiRefreshHandles\<close> are the live \<open>setInterval\<close> closures, each with its
    \<open>visibleMatches\<close> and \<open>updatedActionsForFileCount\<close>.
  \<^item> \<open>trace\<close> records every call on a collaborator together with the value of \<open>state\<close> at
    the time of the call.

  A handler runs to completion. When a collaborator calls back into the view while the
  view is calling it (the search result firing \<open>onChange\<close> from within \<open>clear()\<close>), the handler
  so called is a step of its own.
\<close>

record 'q view =
  state :: SearchUIState
  changedWhileHidden :: bool
  currentSelectedFileMatch :: "FileMatch option"
  searchWithoutFolderMessageElement :: bool
  currentSearchQ_pending :: "'q doSearch_args list"
  currentSearchQ_running :: "'q doSearch_args option"
  slowTimer :: "nat option"
  uiRefreshHandles :: "(nat \<times> bool) list"
  clock :: nat
  trace :: "(SearchUIState \<times> 'q effect) list"

definition initial_view :: "'q view" where
  "initial_view =
     \<lparr>state = Idle, changedWhileHidden = False, currentSelectedFileMatch = None,
      searchWithoutFolderMessageElement = False, currentSearchQ_pending = [],
      currentSearchQ_running = None, slowTimer = None, uiRefreshHandles = [],
      clock = 0, trace = []\<rparr>"

definition emit :: "'q effect \<Rightarrow> 'q view \<Rightarrow> 'q view" where
  "emit e v = v\<lparr>trace := trace v @ [(state v, e)]\<rparr>"

definition emits :: "'q effect list \<Rightarrow> 'q view \<Rightarrow> 'q view" where
  "emits es v = v\<lparr>trace := trace v @ map (\<lambda>e. (state v, e)) es\<rparr>"

definition MAX_TEXT_RESULTS :: nat where
  "MAX_TEXT_RESULTS = 10000"



definition isSlowSearch :: "'q view \<Rightarrow> bool" where
  "isSlowSearch v = (state v = SlowSearch)"

section \<open>The search view: messages, result count and tree refresh\<close>

definition updateActions :: "'q view \<Rightarrow> 'q view" where
  "updateActions v = emit UpdateActions v"

definition clearMessage :: "'q view \<Rightarrow> 'q view" where
  "clearMessage v = emit DomClearMessage (v\<lparr>searchWithoutFolderMessageElement := False\<rparr>)"

definition showSearchWithoutFolderMessage :: "'q view \<Rightarrow> 'q view" where
  "showSearchWithoutFolderMessage v =
     emits [DomAppendMessage
              (Localize ''searchWithoutFolder''
                 ''You have not opened or specified a folder. Only open files are currently searched - '' []),
            DomAppendLink (Localize ''openFolder'' ''Open Folder'' []) OpenFolder]
       ((clearMessage v)\<lparr>searchWithoutFolderMessageElement := True\<rparr>)"

definition showEmptyStage :: "'q env \<Rightarrow> bool \<Rightarrow> 'q view \<Rightarrow> 'q view" where
  "showEmptyStage env forceHideMessages v =
     (let v1 = updateActions v;
          v2 = (if showingCancelled env \<or> forceHideMessages \<or> \<not> search_searchOnType env
                then emit DomHideMessages v1 else v1);
          v3 = emit DomShowResults v2
      in v3\<lparr>currentSelectedFileMatch := None\<rparr>)"

definition clearSearchResults :: "'q env \<Rightarrow> 'q view \<Rightarrow> 'q view" where
  "clearSearchResults env v =
     (let v1 = emit SearchResultClear v;
          v2 = showEmptyStage env True v1;
          v3 = (if getWorkbenchState env = EMPTY then showSearchWithoutFolderMessage v2 else v2);
          v4 = emits [SearchWidgetClear, ViewModelCancelSearch] v3;
          v5 = updateActions v4
      in emit (AriaStatus (Localize ''ariaSearchResultsClearStatus''
                             ''The search results have been cleared'' [])) v5)"

definition cancelSearch :: "'q env \<Rightarrow> bool \<Rightarrow> 'q view \<Rightarrow> bool \<times> 'q view" where
  "cancelSearch env focus v =
     (let v1 = emit ViewModelCancelSearch v
      in if viewModel_cancelSearch env then
           (True, if focus then emit (SearchWidgetFocus None) v1 else v1)
         else (False, v1))"

definition buildResultCountMessage :: "nat \<Rightarrow> nat \<Rightarrow> nls_text" where
  "buildResultCountMessage resultCount fileCount =
     (if resultCount = 1 \<and> fileCount = 1 then
        Localize ''search.file.result'' ''{0} result in {1} file'' [N resultCount, N fileCount]
      else if resultCount = 1 then
        Localize ''search.files.result'' ''{0} result in {1} files'' [N resultCount, N fileCount]
      else if fileCount = 1 then
        Localize ''search.file.results'' ''{0} results in {1} file'' [N resultCount, N fileCount]
      else
        Localize ''search.files.results'' ''{0} results in {1} files'' [N resultCount, N fileCount])"

definition updateSearchResultCount :: "'q env \<Rightarrow> bool option \<Rightarrow> 'q view \<Rightarrow> 'q view" where
  "updateSearchResultCount env disregardExcludesAndIgnores v =
     (let fileCount = sr_fileCount (searchResult env);
          v1 = emit (HasSearchResultsKeySet (fileCount > 0)) v
      in if fileCount > 0 then
           let v2 = clearMessage v1;
               resultMsg = buildResultCountMessage (sr_count (searchResult env)) fileCount;
               resultMsg' =
                 (if disregardExcludesAndIgnores = Some True then
                    Append resultMsg
                      (Localize ''useIgnoresAndExcludesDisabled''
                         '' - exclude settings and ignore files are disabled'' [])
                  else resultMsg)
           in emits [DomAppendMessage resultMsg', ReLayout] v2
         else if \<not> msgWasHidden env then emit DomHideMessages v1
         else v1)"

definition refreshTree :: "'q env \<Rightarrow> IChangeEvent option \<Rightarrow> 'q view \<Rightarrow> 'q view" where
  "refreshTree env event v =
     (let collapse = search_collapseResults env;
          whole = emit (TreeSetChildren None
                          (createResultIterator (searchMatchComparer env) (tree_nodeExists env)
                             (searchResult env) collapse)) v
      in case event of
           None \<Rightarrow> whole
         | Some e \<Rightarrow>
             if added e \<or> removed e then whole
             else foldl (\<lambda>w element.
                           emits [TreeSetChildren (Some element)
                                    (createIterator (searchMatchComparer env) (tree_nodeExists env)
                                       (searchResult env) element collapse),
                                  TreeRerender element] w)
                    v (elements e))"

definition refreshAndUpdateCount :: "'q env \<Rightarrow> IChangeEvent option \<Rightarrow> 'q view \<Rightarrow> 'q view" where
  "refreshAndUpdateCount env event v =
     (let v1 = emit (SetReplaceAllActionState (\<not> sr_isEmpty (searchResult env))) v;
          v2 = updateSearchResultCount env
                 (sr_query_userDisabledExcludesAndIgnoreFiles (searchResult env)) v1
      in refreshTree env event v2)"

definition onSearchResultsChanged :: "'q env \<Rightarrow> IChangeEvent option \<Rightarrow> 'q view \<Rightarrow> 'q view" where
  "onSearchResultsChanged env event v =
     (if isVisible env then refreshAndUpdateCount env event v
      else v\<lparr>changedWhileHidden := True\<rparr>)"

text \<open>\<open>this.viewModel\<close> is assigned in the constructor, so its guard always passes.\<close>

definition onVisibilityChanged :: "'q env \<Rightarrow> bool \<Rightarrow> 'q view \<Rightarrow> 'q view" where
  "onVisibilityChanged env visible v =
     (let v1 = emit (ViewletVisibleSet visible) v;
          v2 = (if visible then
                  (if changedWhileHidden v1 then
                     (refreshAndUpdateCount env None v1)\<lparr>changedWhileHidden := False\<rparr>
                   else v1)
                else v1)
      in emit (SearchResultToggleHighlights visible) v2)"

section \<open>The search view: submitting a query\<close>

definition onQueryValidationError :: "JSError \<Rightarrow> 'q view \<Rightarrow> 'q view" where
  "onQueryValidationError err v =
     emits [SearchInputShowMessage (message err) ERROR, SearchResultClear] v"

text \<open>
  \<open>onQueryTriggered\<close> chains the \<open>doSearch\<close> call onto \<open>currentSearchQ\<close>; the call itself
  runs later, from \<open>startNextSearch\<close>.
\<close>

definition onQueryTriggered ::
  "'q ITextQuery \<Rightarrow> ITextQueryBuilderOptions \<Rightarrow> jsstring \<Rightarrow> jsstring \<Rightarrow> bool \<Rightarrow> 'q view \<Rightarrow> 'q view" where
  "onQueryTriggered query options excludePatternText includePatternText triggeredOnType v =
     (let v1 = emits [SearchInputOnSearchSubmitDelayed, InputPatternExcludesOnSearchSubmit,
                      InputPatternIncludesOnSearchSubmit, ViewModelCancelSearch] v
      in v1\<lparr>currentSearchQ_pending :=
              currentSearchQ_pending v1 @
                [\<lparr>arg_query = query, arg_options = options,
                  arg_excludePatternText = excludePatternText,
                  arg_includePatternText = includePatternText,
                  arg_triggeredOnType = triggeredOnType\<rparr>]\<rparr>)"

definition textQueryBuilderOptions :: "'q env \<Rightarrow> IPatternInfo \<Rightarrow> ITextQueryBuilderOptions" where
  "textQueryBuilderOptions env content =
     (let excludePattern = inputPatternExcludes_getValue (inputs env);
          includePattern = inputPatternIncludes_getValue (inputs env);
          charsPerLine = (if isRegExp content then 10000 else 250)
      in \<lparr>reason = js ''searchView'',
          extraFileResources = getOutOfWorkspaceEditorResources env,
          maxResults = MAX_TEXT_RESULTS,
          disregardIgnoreFiles =
            (if \<not> useExcludesAndIgnoreFiles (inputs env) then Some True else None),
          disregardExcludeSettings =
            (if \<not> useExcludesAndIgnoreFiles (inputs env) then Some True else None),
          excludePattern = excludePattern,
          includePattern = includePattern,
          previewOptions = \<lparr>matchLines = 1, charsPerLine = charsPerLine\<rparr>,
          isSmartCase = search_smartCase env,
          expandPatterns = True\<rparr>)"

text \<open>
  \<open>onQueryChanged\<close>, with the continuation of \<open>validateQuery(query).then(...)\<close> run in the
  same step: \<open>validateQuery\<close> mutates the query object that \<open>onQueryTriggered\<close> then receives.
\<close>

definition onQueryChanged :: "'q env \<Rightarrow> bool \<Rightarrow> bool \<Rightarrow> 'q view \<Rightarrow> 'q view" where
  "onQueryChanged env preserveFocus triggeredOnType v =
     (if \<not> isInputValid (inputs env) then v
      else
        let isRegex = getRegex (inputs env);
            isWholeWords = getWholeWords (inputs env);
            isCaseSensitive' = getCaseSensitive (inputs env);
            contentPattern = searchInput_getValue (inputs env);
            excludePatternText = trim (inputPatternExcludes_getValue (inputs env));
            includePatternText = trim (inputPatternIncludes_getValue (inputs env))
        in if length contentPattern = 0 then clearMessage (clearSearchResults env v)
           else
             let content = \<lparr>pattern = contentPattern, isRegExp = isRegex,
                            isCaseSensitive = isCaseSensitive', isWordMatch = isWholeWords\<rparr>;
                 options = textQueryBuilderOptions env content;
                 folderResources = workspace_folders env;
                 v1 = emit (QueryBuilderText content (map uri folderResources) options) v
             in case queryBuilder_text env content (map uri folderResources) options of
                  Inl err \<Rightarrow> onQueryValidationError err v1
                | Inr query \<Rightarrow>
                    (case validateQuery (fileService_exists env) query of
                       Inr query' \<Rightarrow>
                         let v2 = onQueryTriggered query' options excludePatternText
                                    includePatternText triggeredOnType v1
                         in if \<not> preserveFocus then emit (SearchWidgetFocus (Some False)) v2
                            else v2
                     | Inl err \<Rightarrow> onQueryValidationError err v1))"

section \<open>The search view: running a search\<close>

definition SEARCH_CANCELLED_MESSAGE :: nls_text where
  "SEARCH_CANCELLED_MESSAGE =
     Localize ''searchCanceled'' ''Search was canceled before any results could be found - '' []"

text \<open>
  The synchronous part of \<open>doSearch\<close>, up to and including the call of
  \<open>viewModel.search(query)\<close>. \<open>onComplete\<close> and \<open>onError\<close> are the two continuations of
  the promise that call returns; \<open>slowTimerCallback\<close> and \<open>uiRefreshCallback\<close> are the
  bodies of the timeout and of the interval.
\<close>

definition doSearch :: "'q env \<Rightarrow> 'q doSearch_args \<Rightarrow> 'q view \<Rightarrow> 'q view" where
  "doSearch env a v =
     (let v1 = emits [WithProgress (if arg_triggeredOnType a then 300 else 0),
                      SearchInputClearMessage] v;
          v2 = v1\<lparr>state := Searching\<rparr>;
          v3 = showEmptyStage env False v2;
          v4 = v3\<lparr>slowTimer := Some (clock v3 + 2000)\<rparr>;
          v5 = v4\<lparr>uiRefreshHandles := uiRefreshHandles v4 @ [(0, False)]\<rparr>
      in emits [SetReplaceAllActionState False, ViewModelSearch (arg_query a)] v5)"

definition slowTimerCallback :: "'q view \<Rightarrow> 'q view" where
  "slowTimerCallback v = updateActions (v\<lparr>state := SlowSearch, slowTimer := None\<rparr>)"

definition noResultsMessage :: "bool \<Rightarrow> jsstring \<Rightarrow> jsstring \<Rightarrow> nls_text" where
  "noResultsMessage completed includePatternText excludePatternText =
     (let hasExcludes = (excludePatternText \<noteq> []);
          hasIncludes = (includePatternText \<noteq> [])
      in if \<not> completed then SEARCH_CANCELLED_MESSAGE
         else if hasIncludes \<and> hasExcludes then
           Localize ''noResultsIncludesExcludes'' ''No results found in '{0}' excluding '{1}' - ''
             [S includePatternText, S excludePatternText]
         else if hasIncludes then
           Localize ''noResultsIncludes'' ''No results found in '{0}' - '' [S includePatternText]
         else if hasExcludes then
           Localize ''noResultsExcludes'' ''No results found excluding '{0}' - ''
             [S excludePatternText]
         else
           Localize ''noResultsFound''
             ''No results found. Review your settings for configured exclusions and check your gitignore files - ''
             [])"

definition onComplete ::
  "'q env \<Rightarrow> 'q doSearch_args \<Rightarrow> ISearchComplete option \<Rightarrow> 'q view \<Rightarrow> 'q view" where
  "onComplete env a completed v =
     (let v1 = v\<lparr>slowTimer := None\<rparr>;
          v2 = v1\<lparr>state := Idle\<rparr>;
          v3 = emit ProgressComplete v2;
          v4 = onSearchResultsChanged env None v3;
          collapse = search_collapseResults env;
          v5 = (if collapse \<noteq> alwaysCollapse \<and> length (sr_matches (searchResult env)) = 1 then
                  let onlyMatch = sr_matches (searchResult env) ! 0
                  in if file_count onlyMatch < 50 then emit (TreeExpand onlyMatch) v4 else v4
                else v4);
          v6 = emit (ViewModelSetReplaceString (getReplaceValue (inputs env))) v5;
          v7 = updateActions v6;
          hasResults = (\<not> sr_isEmpty (searchResult env));
          v8 = (case completed of
                  Some c \<Rightarrow>
                    if limitHit c then
                      emit (SearchInputShowMessage
                              (Localize ''searchMaxResultsWarning''
                                 ''The result set only contains a subset of all matches. Please be more specific in your search to narrow down the results.''
                                 [])
                              WARNING) v7
                    else v7
                | None \<Rightarrow> v7)
      in if \<not> hasResults then
           let hasExcludes = (arg_excludePatternText a \<noteq> []);
               hasIncludes = (arg_includePatternText a \<noteq> []);
               msg = noResultsMessage (completed \<noteq> None) (arg_includePatternText a)
                       (arg_excludePatternText a);
               v9 = emit (AriaStatus msg) v8;
               v10 = emit (DomAppendMessage msg) (clearMessage v9);
               v11 = (if completed = None then
                        emit (DomAppendLink (Localize ''rerunSearch.message'' ''Search again'' [])
                                SearchAgain) v10
                      else if hasIncludes \<or> hasExcludes then
                        emit (DomAppendLink
                                (Localize ''rerunSearchInAll.message'' ''Search again in all files'' [])
                                SearchAgainInAllFiles) v10
                      else
                        emit (DomAppendLink (Localize ''openSettings.message'' ''Open Settings'' [])
                                OpenSettings) v10);
               v12 = (if completed \<noteq> None then
                        emits [DomAppendMessage (Plain (js '' - '')),
                               DomAppendLink (Localize ''openSettings.learnMore'' ''Learn More'' [])
                                 LearnMore] v11
                      else v11);
               v13 = (if getWorkbenchState env = EMPTY then showSearchWithoutFolderMessage v12
                      else v12)
           in emit ReLayout v13
         else
           emits [SearchResultToggleHighlights (isVisible env),
                  AriaStatus (Localize ''ariaSearchResultsStatus''
                                ''Search returned {0} results in {1} files''
                                [N (sr_count (searchResult env)),
                                 N (sr_fileCount (searchResult env))])] v8)"

definition onError :: "'q env \<Rightarrow> 'q doSearch_args \<Rightarrow> JSError \<Rightarrow> 'q view \<Rightarrow> 'q view" where
  "onError env a e v =
     (let v1 = v\<lparr>slowTimer := None\<rparr>;
          v2 = v1\<lparr>state := Idle\<rparr>
      in if isPromiseCanceledError e then onComplete env a None v2
         else
           let v3 = updateActions v2
           in emits [ProgressComplete, SearchInputShowMessage (message e) ERROR,
                     SearchResultClear] v3)"

definition uiRefreshCallback :: "'q env \<Rightarrow> nat \<Rightarrow> 'q view \<Rightarrow> 'q view" where
  "uiRefreshCallback env i v =
     (if i < length (uiRefreshHandles v) then
        let (visibleMatches, updatedActionsForFileCount) = uiRefreshHandles v ! i
        in if state v = Idle then
             v\<lparr>uiRefreshHandles := take i (uiRefreshHandles v) @ drop (Suc i) (uiRefreshHandles v)\<rparr>
           else
             let fileCount = sr_fileCount (searchResult env);
                 changed = (visibleMatches \<noteq> fileCount);
                 v1 = (if changed then refreshAndUpdateCount env None v else v);
                 visibleMatches' = (if changed then fileCount else visibleMatches);
                 doUpdate = (fileCount > 0 \<and> \<not> updatedActionsForFileCount);
                 v2 = (if doUpdate then updateActions v1 else v1)
             in v2\<lparr>uiRefreshHandles :=
                      (uiRefreshHandles v2)
                        [i := (visibleMatches', updatedActionsForFileCount \<or> doUpdate)]\<rparr>
      else v)"






section \<open>The search view: opening a result\<close>

definition truthy :: "bool option \<Rightarrow> bool" where
  "truthy b = (b = Some True)"

definition getSelectionFrom :: "'q env \<Rightarrow> FileMatchOrMatch \<Rightarrow> IRange option" where
  "getSelectionFrom env element =
     (let match0 = (case element of AMatch m \<Rightarrow> Some m | AFileMatch f \<Rightarrow> None);
          match1 =
            (case element of
               AFileMatch f \<Rightarrow>
                 if file_count f > 0 then
                   (let i = int (length (file_matches f)) - 1
                    in if 0 \<le> i then Some (file_matches f ! nat i) else None)
                 else match0
             | AMatch m \<Rightarrow> match0)
      in case match1 of
           Some match \<Rightarrow>
             let range = match_range match
             in if viewModel_isReplaceActive env \<and> viewModel_replaceString env \<noteq> [] then
                  let replaceString = match_replaceString match
                  in Some \<lparr>startLineNumber = startLineNumber range,
                           startColumn = startColumn range,
                           endLineNumber = startLineNumber range,
                           endColumn = startColumn range + int (length replaceString)\<rparr>
                else Some range
         | None \<Rightarrow> None)"

definition open_element ::
  "'q env \<Rightarrow> FileMatchOrMatch \<Rightarrow> bool option \<Rightarrow> bool option \<Rightarrow> bool option \<Rightarrow> 'q view \<Rightarrow> 'q view" where
  "open_element env element preserveFocus sideBySide pinned v =
     (let selection = getSelectionFrom env element;
          resource = (case element of AMatch m \<Rightarrow> match_parent_resource m
                                    | AFileMatch f \<Rightarrow> file_resource f);
          v1 = emit (OpenEditor resource
                       \<lparr>opt_preserveFocus = preserveFocus, opt_pinned = pinned,
                        opt_selection = selection, opt_revealIfVisible = True\<rparr>
                       (if truthy sideBySide then SIDE_GROUP else ACTIVE_GROUP)) v
      in case editorService_openEditor env of
           Inr hasEditor \<Rightarrow>
             (case element of
                AMatch m \<Rightarrow>
                  if hasEditor \<and> truthy preserveFocus then emit (HighlightRange (match_range m)) v1
                  else emit RemoveHighlightRange v1
              | AFileMatch f \<Rightarrow> emit RemoveHighlightRange v1)
         | Inl e \<Rightarrow> emit (OnUnexpectedError e) v1)"

section \<open>Vocabulary of the properties\<close>






definition calls_during :: "'q view \<Rightarrow> 'q view \<Rightarrow> 'q effect list" where
  "calls_during v v' = map snd (drop (length (trace v)) (trace v'))"






definition replacePreviewSelection :: "Match \<Rightarrow> IRange" where
  "replacePreviewSelection m =
     \<lparr>startLineNumber = startLineNumber (match_range m),
      startColumn = startColumn (match_range m),
      endLineNumber = startLineNumber (match_range m),
      endColumn = startColumn (match_range m) + int (length (match_replaceString m))\<rparr>"

section \<open>Example inputs\<close>

text \<open>
  A small workspace with two files and three matches, the answers of the collaborators
  around it, and a few variations. The properties are instantiated on them below.
\<close>

definition uriW :: URI where "uriW = \<lparr>scheme = js ''file'', fsPath = js ''/w''\<rparr>"

definition uriA :: URI where "uriA = \<lparr>scheme = js ''file'', fsPath = js ''/w/a.ts''\<rparr>"

definition uriB :: URI where "uriB = \<lparr>scheme = js ''file'', fsPath = js ''/w/lib/b.ts''\<rparr>"

definition exampleServices :: services where
  "exampleServices =
     \<lparr>isWindows = True,
      getUriLabel = (\<lambda>resource relative noPrefix. if relative then drop 3 (fsPath resource) else fsPath resource),
      clipboard_writeText = (\<lambda>t. None),
      getMultiSelectedResources = (\<lambda>arg. case arg of ArgURI u \<Rightarrow> [u, uriB] | ArgObject \<Rightarrow> []),
      activeEditor_getResource = None,
      getMultiSelectedEditors =
        [\<lparr>groupId = 1, editor = \<lparr>getName = js ''Untitled-1'', isUntitled = True\<rparr>\<rparr>,
         \<lparr>groupId = 1, editor = \<lparr>getName = js ''a.ts'', isUntitled = False\<rparr>\<rparr>],
      editorService_revert =
        (\<lambda>editors force. Some \<lparr>message = Plain (js ''EACCES''), isPromiseCanceledError = False\<rparr>),
      toErrorMessage = (\<lambda>e verbose. js ''EACCES'')\<rparr>"


definition matchA1 :: Match where
  "matchA1 = \<lparr>match_id = js ''a1'',
              match_range = \<lparr>startLineNumber = 7, startColumn = 5, endLineNumber = 7, endColumn = 8\<rparr>,
              match_replaceString = js ''quux'', match_parent_resource = uriA\<rparr>"

definition matchA2 :: Match where
  "matchA2 = \<lparr>match_id = js ''a2'',
              match_range = \<lparr>startLineNumber = 2, startColumn = 1, endLineNumber = 2, endColumn = 4\<rparr>,
              match_replaceString = js ''quux'', match_parent_resource = uriA\<rparr>"

definition matchB1 :: Match where
  "matchB1 = \<lparr>match_id = js ''b1'',
              match_range = \<lparr>startLineNumber = 1, startColumn = 9, endLineNumber = 1, endColumn = 12\<rparr>,
              match_replaceString = js ''quux'', match_parent_resource = uriB\<rparr>"

definition fileA :: FileMatch where
  "fileA = \<lparr>file_id = js ''a'', file_resource = uriA, file_matches = [matchA1, matchA2],
            file_count = 2\<rparr>"

definition fileB :: FileMatch where
  "fileB = \<lparr>file_id = js ''b'', file_resource = uriB, file_matches = [matchB1], file_count = 1\<rparr>"

definition folderW :: FolderMatch where
  "folderW = \<lparr>folder_id = js ''w'', folder_matches = [fileB, fileA], folder_isEmpty = False\<rparr>"


definition folderOther :: FolderMatch where
  "folderOther = \<lparr>folder_id = js ''other'', folder_matches = [], folder_isEmpty = True\<rparr>"

definition exampleResult :: SearchResult where
  "exampleResult =
     \<lparr>sr_folderMatches = [folderOther, folderW], sr_matches = [fileB, fileA], sr_isEmpty = False,
      sr_fileCount = 2, sr_count = 3, sr_query_userDisabledExcludesAndIgnoreFiles = None\<rparr>"


text \<open>An example comparer: folders by id length, files by path length, matches by start.\<close>

fun exampleComparer :: "RenderableMatch \<Rightarrow> RenderableMatch \<Rightarrow> int" where
  "exampleComparer (RFolder a) (RFolder b) = int (length (folder_id a)) - int (length (folder_id b))"
| "exampleComparer (RFile a) (RFile b) =
     int (length (fsPath (file_resource a))) - int (length (fsPath (file_resource b)))"
| "exampleComparer (RMatch a) (RMatch b) =
     (if startLineNumber (match_range a) = startLineNumber (match_range b)
      then startColumn (match_range a) - startColumn (match_range b)
      else startLineNumber (match_range a) - startLineNumber (match_range b))"
| "exampleComparer a b = 0"

definition exampleInputs :: inputs where
  "exampleInputs =
     \<lparr>isInputValid = True, getRegex = True, getWholeWords = False, getCaseSensitive = False,
      searchInput_getValue = js ''fo+'', getReplaceValue = [],
      inputPatternExcludes_getValue = [], inputPatternIncludes_getValue = js '' src '',
      useExcludesAndIgnoreFiles = True\<rparr>"

definition exampleQueryBuilder ::
  "IPatternInfo \<Rightarrow> URI list \<Rightarrow> ITextQueryBuilderOptions \<Rightarrow> JSError + unit ITextQuery" where
  "exampleQueryBuilder content folders options =
     (if pattern content = js ''('' then
        Inl \<lparr>message = Plain (js ''Unterminated group''), isPromiseCanceledError = False\<rparr>
      else
        Inr \<lparr>folderQueries = map (\<lambda>u. \<lparr>folder = u\<rparr>) folders,
             userDisabledExcludesAndIgnoreFiles = None, other = ()\<rparr>)"

definition exampleEnv :: "unit env" where
  "exampleEnv =
     \<lparr>inputs = exampleInputs, searchResult = exampleResult,
      searchMatchComparer = exampleComparer, tree_nodeExists = (\<lambda>f. False),
      isVisible = True, viewModel_cancelSearch = False, viewModel_isReplaceActive = False,
      viewModel_replaceString = [], queryBuilder_text = exampleQueryBuilder,
      fileService_exists = (\<lambda>u. True), editorService_openEditor = Inr True,
      getOutOfWorkspaceEditorResources = [], workspace_folders = [\<lparr>uri = uriW\<rparr>],
      getWorkbenchState = FOLDER, search_smartCase = False, search_searchOnType = True,
      search_collapseResults = auto, showingCancelled = False, msgWasHidden = False\<rparr>"







definition replaceEnv :: "unit env" where
  "replaceEnv = exampleEnv\<lparr>viewModel_isReplaceActive := True, viewModel_replaceString := js ''bar''\<rparr>"


section \<open>Properties\<close>

subsection \<open>Validating the folder queries\<close>



subsection \<open>Sorting and the result tree\<close>

lemma mset_js_insert: "mset (js_insert c x ys) = add_mset x (mset ys)"
  by (induction ys) auto

lemma mset_js_sort: "mset (js_sort c xs) = mset xs"
  unfolding js_sort_def by (induction xs) (auto simp: mset_js_insert)





lemma set_js_sort: "set (js_sort c xs) = set xs"
  using mset_js_sort[of c xs] by (metis set_mset_mset)








subsection \<open>What each handler leaves unchanged, and what it calls\<close>

lemma emit_simps [simp]:
  "state (emit e v) = state v"
  "changedWhileHidden (emit e v) = changedWhileHidden v"
  "currentSelectedFileMatch (emit e v) = currentSelectedFileMatch v"
  "searchWithoutFolderMessageElement (emit e v) = searchWithoutFolderMessageElement v"
  "currentSearchQ_pending (emit e v) = currentSearchQ_pending v"
  "currentSearchQ_running (emit e v) = currentSearchQ_running v"
  "slowTimer (emit e v) = slowTimer v"
  "uiRefreshHandles (emit e v) = uiRefreshHandles v"
  "clock (emit e v) = clock v"
  "trace (emit e v) = trace v @ [(state v, e)]"
  by (simp_all add: emit_def)

lemma emits_simps [simp]:
  "state (emits es v) = state v"
  "changedWhileHidden (emits es v) = changedWhileHidden v"
  "currentSelectedFileMatch (emits es v) = currentSelectedFileMatch v"
  "searchWithoutFolderMessageElement (emits es v) = searchWithoutFolderMessageElement v"
  "currentSearchQ_pending (emits es v) = currentSearchQ_pending v"
  "currentSearchQ_running (emits es v) = currentSearchQ_running v"
  "slowTimer (emits es v) = slowTimer v"
  "uiRefreshHandles (emits es v) = uiRefreshHandles v"
  "clock (emits es v) = clock v"
  "trace (emits es v) = trace v @ map (Pair (state v)) es"
  by (simp_all add: emits_def)

lemma calls_during_append [simp]:
  "trace v' = trace v @ xs \<Longrightarrow> calls_during v v' = map snd xs"
  by (simp add: calls_during_def)

lemma updateActions_simps [simp]:
  "state (updateActions v) = state v"
  "changedWhileHidden (updateActions v) = changedWhileHidden v"
  "currentSearchQ_pending (updateActions v) = currentSearchQ_pending v"
  "currentSearchQ_running (updateActions v) = currentSearchQ_running v"
  "slowTimer (updateActions v) = slowTimer v"
  "uiRefreshHandles (updateActions v) = uiRefreshHandles v"
  "clock (updateActions v) = clock v"
  "trace (updateActions v) = trace v @ [(state v, UpdateActions)]"
  by (simp_all add: updateActions_def)

lemma clearMessage_simps [simp]:
  "state (clearMessage v) = state v"
  "changedWhileHidden (clearMessage v) = changedWhileHidden v"
  "currentSearchQ_pending (clearMessage v) = currentSearchQ_pending v"
  "currentSearchQ_running (clearMessage v) = currentSearchQ_running v"
  "slowTimer (clearMessage v) = slowTimer v"
  "uiRefreshHandles (clearMessage v) = uiRefreshHandles v"
  "clock (clearMessage v) = clock v"
  "trace (clearMessage v) = trace v @ [(state v, DomClearMessage)]"
  by (simp_all add: clearMessage_def)

lemma showSearchWithoutFolderMessage_simps [simp]:
  "state (showSearchWithoutFolderMessage v) = state v"
  "changedWhileHidden (showSearchWithoutFolderMessage v) = changedWhileHidden v"
  "currentSearchQ_pending (showSearchWithoutFolderMessage v) = currentSearchQ_pending v"
  "currentSearchQ_running (showSearchWithoutFolderMessage v) = currentSearchQ_running v"
  "slowTimer (showSearchWithoutFolderMessage v) = slowTimer v"
  "uiRefreshHandles (showSearchWithoutFolderMessage v) = uiRefreshHandles v"
  "clock (showSearchWithoutFolderMessage v) = clock v"
  "trace (showSearchWithoutFolderMessage v) =
     trace v @ map (Pair (state v))
       [DomClearMessage,
        DomAppendMessage
          (Localize ''searchWithoutFolder''
             ''You have not opened or specified a folder. Only open files are currently searched - '' []),
        DomAppendLink (Localize ''openFolder'' ''Open Folder'' []) OpenFolder]"
  by (simp_all add: showSearchWithoutFolderMessage_def)

lemma showEmptyStage_simps [simp]:
  "state (showEmptyStage env f v) = state v"
  "changedWhileHidden (showEmptyStage env f v) = changedWhileHidden v"
  "currentSearchQ_pending (showEmptyStage env f v) = currentSearchQ_pending v"
  "currentSearchQ_running (showEmptyStage env f v) = currentSearchQ_running v"
  "slowTimer (showEmptyStage env f v) = slowTimer v"
  "uiRefreshHandles (showEmptyStage env f v) = uiRefreshHandles v"
  "clock (showEmptyStage env f v) = clock v"
  "trace (showEmptyStage env f v) =
     trace v @ map (Pair (state v))
       (UpdateActions #
        (if showingCancelled env \<or> f \<or> \<not> search_searchOnType env then [DomHideMessages] else []) @
        [DomShowResults])"
  by (simp_all add: showEmptyStage_def Let_def)

lemma clearSearchResults_simps [simp]:
  "state (clearSearchResults env v) = state v"
  "changedWhileHidden (clearSearchResults env v) = changedWhileHidden v"
  "currentSearchQ_pending (clearSearchResults env v) = currentSearchQ_pending v"
  "currentSearchQ_running (clearSearchResults env v) = currentSearchQ_running v"
  "slowTimer (clearSearchResults env v) = slowTimer v"
  "uiRefreshHandles (clearSearchResults env v) = uiRefreshHandles v"
  "clock (clearSearchResults env v) = clock v"
  by (simp_all add: clearSearchResults_def Let_def)


lemma cancelSearch_simps [simp]:
  "state (snd (cancelSearch env f v)) = state v"
  "changedWhileHidden (snd (cancelSearch env f v)) = changedWhileHidden v"
  "currentSearchQ_pending (snd (cancelSearch env f v)) = currentSearchQ_pending v"
  "currentSearchQ_running (snd (cancelSearch env f v)) = currentSearchQ_running v"
  "slowTimer (snd (cancelSearch env f v)) = slowTimer v"
  "uiRefreshHandles (snd (cancelSearch env f v)) = uiRefreshHandles v"
  "clock (snd (cancelSearch env f v)) = clock v"
  by (simp_all add: cancelSearch_def Let_def)

lemma updateSearchResultCount_simps [simp]:
  "state (updateSearchResultCount env d v) = state v"
  "changedWhileHidden (updateSearchResultCount env d v) = changedWhileHidden v"
  "currentSearchQ_pending (updateSearchResultCount env d v) = currentSearchQ_pending v"
  "currentSearchQ_running (updateSearchResultCount env d v) = currentSearchQ_running v"
  "slowTimer (updateSearchResultCount env d v) = slowTimer v"
  "uiRefreshHandles (updateSearchResultCount env d v) = uiRefreshHandles v"
  "clock (updateSearchResultCount env d v) = clock v"
  by (simp_all add: updateSearchResultCount_def Let_def)


lemma foldl_emits_fields:
  "state (foldl (\<lambda>w x. emits (f x) w) v xs) = state v
   \<and> changedWhileHidden (foldl (\<lambda>w x. emits (f x) w) v xs) = changedWhileHidden v
   \<and> currentSearchQ_pending (foldl (\<lambda>w x. emits (f x) w) v xs) = currentSearchQ_pending v
   \<and> currentSearchQ_running (foldl (\<lambda>w x. emits (f x) w) v xs) = currentSearchQ_running v
   \<and> slowTimer (foldl (\<lambda>w x. emits (f x) w) v xs) = slowTimer v
   \<and> uiRefreshHandles (foldl (\<lambda>w x. emits (f x) w) v xs) = uiRefreshHandles v
   \<and> clock (foldl (\<lambda>w x. emits (f x) w) v xs) = clock v
   \<and> trace (foldl (\<lambda>w x. emits (f x) w) v xs) =
       trace v @ map (Pair (state v)) (concat (map f xs))"
  by (induction xs arbitrary: v) simp_all

lemma refreshTree_simps [simp]:
  "state (refreshTree env ev v) = state v"
  "changedWhileHidden (refreshTree env ev v) = changedWhileHidden v"
  "currentSearchQ_pending (refreshTree env ev v) = currentSearchQ_pending v"
  "currentSearchQ_running (refreshTree env ev v) = currentSearchQ_running v"
  "slowTimer (refreshTree env ev v) = slowTimer v"
  "uiRefreshHandles (refreshTree env ev v) = uiRefreshHandles v"
  "clock (refreshTree env ev v) = clock v"
  by (simp_all add: refreshTree_def Let_def foldl_emits_fields split: option.split)




lemma refreshAndUpdateCount_simps [simp]:
  "state (refreshAndUpdateCount env ev v) = state v"
  "changedWhileHidden (refreshAndUpdateCount env ev v) = changedWhileHidden v"
  "currentSearchQ_pending (refreshAndUpdateCount env ev v) = currentSearchQ_pending v"
  "currentSearchQ_running (refreshAndUpdateCount env ev v) = currentSearchQ_running v"
  "slowTimer (refreshAndUpdateCount env ev v) = slowTimer v"
  "uiRefreshHandles (refreshAndUpdateCount env ev v) = uiRefreshHandles v"
  "clock (refreshAndUpdateCount env ev v) = clock v"
  by (simp_all add: refreshAndUpdateCount_def Let_def)


lemma onSearchResultsChanged_simps [simp]:
  "state (onSearchResultsChanged env ev v) = state v"
  "currentSearchQ_pending (onSearchResultsChanged env ev v) = currentSearchQ_pending v"
  "currentSearchQ_running (onSearchResultsChanged env ev v) = currentSearchQ_running v"
  "slowTimer (onSearchResultsChanged env ev v) = slowTimer v"
  "uiRefreshHandles (onSearchResultsChanged env ev v) = uiRefreshHandles v"
  "clock (onSearchResultsChanged env ev v) = clock v"
  by (simp_all add: onSearchResultsChanged_def)

lemma onVisibilityChanged_simps [simp]:
  "state (onVisibilityChanged env vis v) = state v"
  "currentSearchQ_pending (onVisibilityChanged env vis v) = currentSearchQ_pending v"
  "currentSearchQ_running (onVisibilityChanged env vis v) = currentSearchQ_running v"
  "slowTimer (onVisibilityChanged env vis v) = slowTimer v"
  "uiRefreshHandles (onVisibilityChanged env vis v) = uiRefreshHandles v"
  "clock (onVisibilityChanged env vis v) = clock v"
  by (simp_all add: onVisibilityChanged_def Let_def)

lemma onQueryValidationError_simps [simp]:
  "state (onQueryValidationError err v) = state v"
  "currentSearchQ_pending (onQueryValidationError err v) = currentSearchQ_pending v"
  "currentSearchQ_running (onQueryValidationError err v) = currentSearchQ_running v"
  "slowTimer (onQueryValidationError err v) = slowTimer v"
  "uiRefreshHandles (onQueryValidationError err v) = uiRefreshHandles v"
  "clock (onQueryValidationError err v) = clock v"
  "trace (onQueryValidationError err v) =
     trace v @ map (Pair (state v)) [SearchInputShowMessage (message err) ERROR, SearchResultClear]"
  by (simp_all add: onQueryValidationError_def)

lemma onQueryTriggered_simps [simp]:
  "state (onQueryTriggered q opts ex inc tot v) = state v"
  "currentSearchQ_pending (onQueryTriggered q opts ex inc tot v) =
     currentSearchQ_pending v @
       [\<lparr>arg_query = q, arg_options = opts, arg_excludePatternText = ex,
         arg_includePatternText = inc, arg_triggeredOnType = tot\<rparr>]"
  "currentSearchQ_running (onQueryTriggered q opts ex inc tot v) = currentSearchQ_running v"
  "slowTimer (onQueryTriggered q opts ex inc tot v) = slowTimer v"
  "uiRefreshHandles (onQueryTriggered q opts ex inc tot v) = uiRefreshHandles v"
  "clock (onQueryTriggered q opts ex inc tot v) = clock v"
  "trace (onQueryTriggered q opts ex inc tot v) =
     trace v @ map (Pair (state v))
       [SearchInputOnSearchSubmitDelayed, InputPatternExcludesOnSearchSubmit,
        InputPatternIncludesOnSearchSubmit, ViewModelCancelSearch]"
  by (simp_all add: onQueryTriggered_def Let_def)

lemma onQueryChanged_simps [simp]:
  "state (onQueryChanged env pf tot v) = state v"
  "currentSearchQ_running (onQueryChanged env pf tot v) = currentSearchQ_running v"
  "slowTimer (onQueryChanged env pf tot v) = slowTimer v"
  "uiRefreshHandles (onQueryChanged env pf tot v) = uiRefreshHandles v"
  "clock (onQueryChanged env pf tot v) = clock v"
  by (simp_all add: onQueryChanged_def Let_def split: sum.split)

lemma doSearch_simps [simp]:
  "state (doSearch env a v) = Searching"
  "currentSearchQ_pending (doSearch env a v) = currentSearchQ_pending v"
  "currentSearchQ_running (doSearch env a v) = currentSearchQ_running v"
  "slowTimer (doSearch env a v) = Some (clock v + 2000)"
  "uiRefreshHandles (doSearch env a v) = uiRefreshHandles v @ [(0, False)]"
  "clock (doSearch env a v) = clock v"
  by (simp_all add: doSearch_def Let_def)


lemma slowTimerCallback_simps [simp]:
  "state (slowTimerCallback v) = SlowSearch"
  "currentSearchQ_pending (slowTimerCallback v) = currentSearchQ_pending v"
  "currentSearchQ_running (slowTimerCallback v) = currentSearchQ_running v"
  "slowTimer (slowTimerCallback v) = None"
  "clock (slowTimerCallback v) = clock v"
  "trace (slowTimerCallback v) = trace v @ [(SlowSearch, UpdateActions)]"
  by (simp_all add: slowTimerCallback_def)

lemma onComplete_simps [simp]:
  "state (onComplete env a c v) = Idle"
  "currentSearchQ_pending (onComplete env a c v) = currentSearchQ_pending v"
  "currentSearchQ_running (onComplete env a c v) = currentSearchQ_running v"
  "slowTimer (onComplete env a c v) = None"
  "clock (onComplete env a c v) = clock v"
  by (simp_all add: onComplete_def Let_def split: option.split)

lemma onError_simps [simp]:
  "state (onError env a e v) = Idle"
  "currentSearchQ_pending (onError env a e v) = currentSearchQ_pending v"
  "currentSearchQ_running (onError env a e v) = currentSearchQ_running v"
  "slowTimer (onError env a e v) = None"
  "clock (onError env a e v) = clock v"
  by (simp_all add: onError_def Let_def)

lemma uiRefreshCallback_simps [simp]:
  "state (uiRefreshCallback env i v) = state v"
  "currentSearchQ_pending (uiRefreshCallback env i v) = currentSearchQ_pending v"
  "currentSearchQ_running (uiRefreshCallback env i v) = currentSearchQ_running v"
  "slowTimer (uiRefreshCallback env i v) = slowTimer v"
  "clock (uiRefreshCallback env i v) = clock v"
  by (simp_all add: uiRefreshCallback_def Let_def split: prod.split)

subsection \<open>The search life cycle\<close>













subsection \<open>Submitting a query\<close>















subsection \<open>Result changes and visibility\<close>






subsection \<open>File commands and folder validation\<close>

lemma last_by_index: "xs \<noteq> [] \<Longrightarrow> xs ! nat (int (length xs) - 1) = last xs"
  by (cases xs rule: rev_cases) (simp_all add: nth_append)



text \<open>
  Claim C6. The copy-path command (labels not relative) and the copy-relative-path command
  (labels relative) do the same thing with the selected resources. If there is at least one,
  the only effect is one write to the clipboard, of the labels joined by CR LF on Windows
  and by LF elsewhere; no notification is shown. If there is none, the only effect is the
  info notification \<open>Open a file first to copy its path\<close>; the clipboard is not written.
\<close>

theorem copy_path_writes_clipboard_or_notifies:
  "fst (COPY_PATH_COMMAND sv arg) =
     (if getMultiSelectedResources sv arg \<noteq> [] then
        [ClipboardWriteText
           (js_join (if isWindows sv then [0x0D, 0x0A] else [0x0A])
              (map (\<lambda>resource. getUriLabel sv resource False True)
                 (getMultiSelectedResources sv arg)))]
      else [NotificationInfo (Localize ''openFileToCopy'' ''Open a file first to copy its path'' [])])
   \<and> fst (COPY_RELATIVE_PATH_COMMAND sv arg) =
     (if getMultiSelectedResources sv arg \<noteq> [] then
        [ClipboardWriteText
           (js_join (if isWindows sv then [0x0D, 0x0A] else [0x0A])
              (map (\<lambda>resource. getUriLabel sv resource True True)
                 (getMultiSelectedResources sv arg)))]
      else [NotificationInfo (Localize ''openFileToCopy'' ''Open a file first to copy its path'' [])])"
  by (simp add: COPY_PATH_COMMAND_def COPY_RELATIVE_PATH_COMMAND_def resourcesToClipboard_def Let_def)

theorem copy_path_writes_clipboard_or_notifies_witness:
  "fst (COPY_PATH_COMMAND exampleServices (ArgURI uriA)) =
     [ClipboardWriteText (js ''/w/a.ts'' @ [0x0D, 0x0A] @ js ''/w/lib/b.ts'')]
   \<and> fst (COPY_RELATIVE_PATH_COMMAND exampleServices (ArgURI uriA)) =
     [ClipboardWriteText (js ''a.ts'' @ [0x0D, 0x0A] @ js ''lib/b.ts'')]
   \<and> fst (COPY_PATH_COMMAND exampleServices ArgObject) =
     [NotificationInfo (Localize ''openFileToCopy'' ''Open a file first to copy its path'' [])]"
  using copy_path_writes_clipboard_or_notifies[of exampleServices "ArgURI uriA"]
    copy_path_writes_clipboard_or_notifies[of exampleServices ArgObject]
  by (simp add: exampleServices_def uriA_def uriB_def js_def)

text \<open>
  Claim C7. The revert command calls \<open>editorService.revert\<close> exactly once, with force, on
  the multi-selected editors that are not untitled, in their order. If that call fails, an
  error notification follows whose arguments are the names of those editors joined by a
  comma and the message of the error; if it succeeds there is no further effect. In both
  cases the promise of the command resolves.
\<close>

theorem revert_reverts_titled_editors:
  "let editors = filter (\<lambda>e. \<not> isUntitled (editor e)) (getMultiSelectedEditors sv);
       result = REVERT_FILE_COMMAND sv
   in snd result = Inr ()
      \<and> set editors = {e \<in> set (getMultiSelectedEditors sv). \<not> isUntitled (editor e)}
      \<and> filter (\<lambda>x. case x of EditorServiceRevert es force \<Rightarrow> True | _ \<Rightarrow> False) (fst result) =
          [EditorServiceRevert editors True]
      \<and> (editorService_revert sv editors True = None \<longrightarrow>
            fst result = [EditorServiceRevert editors True])
      \<and> (\<forall>error. editorService_revert sv editors True = Some error \<longrightarrow>
            fst result =
              [EditorServiceRevert editors True,
               NotificationError
                 (Localize ''genericRevertError'' ''Failed to revert '{0}': {1}''
                    [S (js_join (js '', '') (map (\<lambda>e. getName (editor e)) editors)),
                     S (toErrorMessage sv error False)])])"
  by (auto simp: REVERT_FILE_COMMAND_def Let_def split: option.splits)

theorem revert_reverts_titled_editors_witness:
  "snd (REVERT_FILE_COMMAND exampleServices) = Inr ()
   \<and> fst (REVERT_FILE_COMMAND exampleServices) =
       [EditorServiceRevert [\<lparr>groupId = 1, editor = \<lparr>getName = js ''a.ts'', isUntitled = False\<rparr>\<rparr>] True,
        NotificationError
          (Localize ''genericRevertError'' ''Failed to revert '{0}': {1}''
             [S (js ''a.ts''), S (js ''EACCES'')])]
   \<and> fst (REVERT_FILE_COMMAND (exampleServices\<lparr>editorService_revert := \<lambda>editors force. None\<rparr>)) =
       [EditorServiceRevert [\<lparr>groupId = 1, editor = \<lparr>getName = js ''a.ts'', isUntitled = False\<rparr>\<rparr>] True]"
  using revert_reverts_titled_editors[of exampleServices]
    revert_reverts_titled_editors[of "exampleServices\<lparr>editorService_revert := \<lambda>editors force. None\<rparr>"]
  by (simp add: Let_def exampleServices_def)

subsection \<open>The properties on the example inputs\<close>













subsection \<open>Opening a result\<close>

lemma getSelectionFrom_Match:
  "getSelectionFrom env (AMatch m) =
     Some (if viewModel_isReplaceActive env \<and> viewModel_replaceString env \<noteq> []
           then replacePreviewSelection m else match_range m)"
  by (simp add: getSelectionFrom_def Let_def replacePreviewSelection_def)

lemma getSelectionFrom_FileMatch:
  assumes "file_count f > 0" and "file_matches f \<noteq> []"
  shows "getSelectionFrom env (AFileMatch f) =
     Some (if viewModel_isReplaceActive env \<and> viewModel_replaceString env \<noteq> []
           then replacePreviewSelection (last (file_matches f))
           else match_range (last (file_matches f)))"
  using assms
  by (simp add: getSelectionFrom_def Let_def replacePreviewSelection_def last_by_index)

lemma getSelectionFrom_FileMatch_none:
  "file_count f = 0 \<Longrightarrow> getSelectionFrom env (AFileMatch f) = None"
  by (simp add: getSelectionFrom_def Let_def)

lemma open_element_first_call:
  "take 1 (calls_during v (open_element env el preserveFocus sideBySide pinned v)) =
     [OpenEditor
        (case el of AMatch m \<Rightarrow> match_parent_resource m | AFileMatch f \<Rightarrow> file_resource f)
        \<lparr>opt_preserveFocus = preserveFocus, opt_pinned = pinned,
         opt_selection = getSelectionFrom env el, opt_revealIfVisible = True\<rparr>
        (if sideBySide = Some True then SIDE_GROUP else ACTIVE_GROUP)]
   \<and> length (calls_during v (open_element env el preserveFocus sideBySide pinned v)) = 2"
  by (simp add: open_element_def Let_def truthy_def calls_during_def
           split: sum.split FileMatchOrMatch.split)

text \<open>
  Claim C5. \<open>open\<close> first calls \<open>openEditor\<close> on the resource of the element, with the
  selection that \<open>getSelectionFrom\<close> computes from the element.
  \<^item> For a \<open>Match\<close> the selection is its own range.
  \<^item> For a \<open>FileMatch\<close> whose \<open>count()\<close> is positive and whose \<open>matches()\<close> is not empty it
    is the range of the last element of \<open>matches()\<close>, in the order the model returns them.
  \<^item> When replace is active and the replace string of the model is not empty, the
    selection is instead the replace preview selection of that match: it starts at the
    start of the match, ends on the same line, and spans as many columns as the match's
    own replace string has code units.
\<close>

theorem open_navigates_to_selection:
  "take 1 (calls_during v (open_element env el preserveFocus sideBySide pinned v)) =
     [OpenEditor
        (case el of AMatch m \<Rightarrow> match_parent_resource m | AFileMatch f \<Rightarrow> file_resource f)
        \<lparr>opt_preserveFocus = preserveFocus, opt_pinned = pinned,
         opt_selection = getSelectionFrom env el, opt_revealIfVisible = True\<rparr>
        (if sideBySide = Some True then SIDE_GROUP else ACTIVE_GROUP)]
   \<and> getSelectionFrom env (AMatch m) =
       Some (if viewModel_isReplaceActive env \<and> viewModel_replaceString env \<noteq> []
             then replacePreviewSelection m else match_range m)
   \<and> (file_count f > 0 \<and> file_matches f \<noteq> [] \<longrightarrow>
        getSelectionFrom env (AFileMatch f) =
          Some (if viewModel_isReplaceActive env \<and> viewModel_replaceString env \<noteq> []
                then replacePreviewSelection (last (file_matches f))
                else match_range (last (file_matches f))))
   \<and> startLineNumber (replacePreviewSelection m) = startLineNumber (match_range m)
   \<and> startColumn (replacePreviewSelection m) = startColumn (match_range m)
   \<and> endLineNumber (replacePreviewSelection m) = startLineNumber (match_range m)
   \<and> endColumn (replacePreviewSelection m) - startColumn (replacePreviewSelection m) =
       int (length (match_replaceString m))"
  using open_element_first_call[of v env el preserveFocus sideBySide pinned]
    getSelectionFrom_Match[of env m] getSelectionFrom_FileMatch[of f env]
  by (simp add: replacePreviewSelection_def)

theorem open_navigates_to_selection_witness:
  "file_count fileA > 0 \<and> file_matches fileA \<noteq> []
   \<and> getSelectionFrom exampleEnv (AFileMatch fileA) =
       Some \<lparr>startLineNumber = 2, startColumn = 1, endLineNumber = 2, endColumn = 4\<rparr>
   \<and> getSelectionFrom replaceEnv (AFileMatch fileA) =
       Some \<lparr>startLineNumber = 2, startColumn = 1, endLineNumber = 2, endColumn = 5\<rparr>
   \<and> getSelectionFrom replaceEnv (AMatch matchA1) =
       Some \<lparr>startLineNumber = 7, startColumn = 5, endLineNumber = 7, endColumn = 9\<rparr>"
proof -
  have h: "file_count fileA > 0 \<and> file_matches fileA \<noteq> []" by (simp add: fileA_def)
  have e: "\<not> viewModel_isReplaceActive exampleEnv" by (simp add: exampleEnv_def)
  have r: "viewModel_isReplaceActive replaceEnv" "viewModel_replaceString replaceEnv \<noteq> []"
    by (simp_all add: replaceEnv_def js_def)
  show ?thesis
    using open_navigates_to_selection[where env = exampleEnv and f = fileA and m = matchA1
        and v = initial_view and el = "AFileMatch fileA" and preserveFocus = None
        and sideBySide = None and pinned = None]
      open_navigates_to_selection[where env = replaceEnv and f = fileA and m = matchA1
        and v = initial_view and el = "AFileMatch fileA" and preserveFocus = None
        and sideBySide = None and pinned = None]
      h e r
    by (simp add: replacePreviewSelection_def fileA_def matchA1_def matchA2_def js_def)
qed




lemma example_tree:
  "createResultIterator exampleComparer (\<lambda>f. False) exampleResult auto =
     [ITreeElement (RFile fileA)
        [ITreeElement (RMatch matchA2) [] None, ITreeElement (RMatch matchA1) [] None]
        (Some False),
      ITreeElement (RFile fileB) [ITreeElement (RMatch matchB1) [] None] (Some False)]"
  by (simp add: createResultIterator_def createFolderIterator_def createFileIterator_def
        js_sort_def exampleResult_def folderOther_def folderW_def fileA_def fileB_def
        matchA1_def matchA2_def matchB1_def uriA_def uriB_def js_def Let_def)

end
